theory Spec2Isabelle
  imports Complex_Main
begin

section \<open>Numbers of the simulation\<close>

text \<open>
  The script computes with Python floats and numpy float64 arrays. A number is modelled
  as an exact real or one of the three special values that numpy produces without
  raising: nan (the mean of an empty array, 0/0, inf - inf, 0 * inf, the logarithm of a
  negative number), +inf and -inf (x/0, the logarithm of 0, the normal quantile at 0).
  Rounding, overflow, underflow and the sign of zero are not modelled: finite results
  are the exact real results.
\<close>

datatype fnum = Fin real | PosInf | NegInf | NaN

fun fneg :: "fnum \<Rightarrow> fnum" where
  "fneg (Fin a) = Fin (- a)"
| "fneg PosInf = NegInf"
| "fneg NegInf = PosInf"
| "fneg NaN = NaN"

fun fadd :: "fnum \<Rightarrow> fnum \<Rightarrow> fnum" where
  "fadd (Fin a) (Fin b) = Fin (a + b)"
| "fadd (Fin a) PosInf = PosInf"
| "fadd (Fin a) NegInf = NegInf"
| "fadd (Fin a) NaN = NaN"
| "fadd PosInf (Fin b) = PosInf"
| "fadd PosInf PosInf = PosInf"
| "fadd PosInf NegInf = NaN"
| "fadd PosInf NaN = NaN"
| "fadd NegInf (Fin b) = NegInf"
| "fadd NegInf PosInf = NaN"
| "fadd NegInf NegInf = NegInf"
| "fadd NegInf NaN = NaN"
| "fadd NaN b = NaN"

definition fsub :: "fnum \<Rightarrow> fnum \<Rightarrow> fnum" where
  "fsub a b = fadd a (fneg b)"

text \<open>The infinity with the sign of a non-zero real.\<close>

definition signed_inf :: "real \<Rightarrow> fnum" where
  "signed_inf a = (if 0 < a then PosInf else NegInf)"

fun fmul :: "fnum \<Rightarrow> fnum \<Rightarrow> fnum" where
  "fmul (Fin a) (Fin b) = Fin (a * b)"
| "fmul (Fin a) PosInf = (if a = 0 then NaN else signed_inf a)"
| "fmul (Fin a) NegInf = (if a = 0 then NaN else signed_inf (- a))"
| "fmul (Fin a) NaN = NaN"
| "fmul PosInf (Fin b) = (if b = 0 then NaN else signed_inf b)"
| "fmul PosInf PosInf = PosInf"
| "fmul PosInf NegInf = NegInf"
| "fmul PosInf NaN = NaN"
| "fmul NegInf (Fin b) = (if b = 0 then NaN else signed_inf (- b))"
| "fmul NegInf PosInf = NegInf"
| "fmul NegInf NegInf = PosInf"
| "fmul NegInf NaN = NaN"
| "fmul NaN b = NaN"

text \<open>
  numpy's division: dividing by zero gives an infinity (nan for 0/0) and a warning, no
  exception. A zero divisor counts as +0.
\<close>

fun fdiv :: "fnum \<Rightarrow> fnum \<Rightarrow> fnum" where
  "fdiv (Fin a) (Fin b) =
     (if b \<noteq> 0 then Fin (a / b) else if a = 0 then NaN else signed_inf a)"
| "fdiv (Fin a) PosInf = Fin 0"
| "fdiv (Fin a) NegInf = Fin 0"
| "fdiv (Fin a) NaN = NaN"
| "fdiv PosInf (Fin b) = (if 0 \<le> b then PosInf else NegInf)"
| "fdiv PosInf PosInf = NaN"
| "fdiv PosInf NegInf = NaN"
| "fdiv PosInf NaN = NaN"
| "fdiv NegInf (Fin b) = (if 0 \<le> b then NegInf else PosInf)"
| "fdiv NegInf PosInf = NaN"
| "fdiv NegInf NegInf = NaN"
| "fdiv NegInf NaN = NaN"
| "fdiv NaN b = NaN"

fun fexp :: "fnum \<Rightarrow> fnum" where
  "fexp (Fin a) = Fin (exp a)"
| "fexp PosInf = PosInf"
| "fexp NegInf = Fin 0"
| "fexp NaN = NaN"

fun flog :: "fnum \<Rightarrow> fnum" where
  "flog (Fin a) = (if 0 < a then Fin (ln a) else if a = 0 then NegInf else NaN)"
| "flog PosInf = PosInf"
| "flog NegInf = NaN"
| "flog NaN = NaN"

fun fsqrt :: "fnum \<Rightarrow> fnum" where
  "fsqrt (Fin a) = (if 0 \<le> a then Fin (sqrt a) else NaN)"
| "fsqrt PosInf = PosInf"
| "fsqrt NegInf = NaN"
| "fsqrt NaN = NaN"



datatype py_error = IndexError | ValueError | ZeroDivisionError

text \<open>
  Python's own float division, \<open>a / b\<close> on two Python floats: a zero divisor raises
  ZeroDivisionError.
\<close>

definition py_div :: "fnum \<Rightarrow> fnum \<Rightarrow> py_error + fnum" where
  "py_div a b = (if b = Fin 0 then Inl ZeroDivisionError else Inr (fdiv a b))"

section \<open>numpy on one-dimensional arrays\<close>

definition np_sum :: "fnum list \<Rightarrow> fnum" where
  "np_sum xs = foldl fadd (Fin 0) xs"

text \<open>\<open>x.mean()\<close>: the sum over the number of elements; nan for an empty array.\<close>

definition np_mean :: "fnum list \<Rightarrow> fnum" where
  "np_mean xs = fdiv (np_sum xs) (Fin (real (length xs)))"

text \<open>\<open>x.var()\<close> with the default \<open>ddof = 0\<close>: the mean of the squared deviations.\<close>

definition np_var :: "fnum list \<Rightarrow> fnum" where
  "np_var xs = (let m = np_mean xs in np_mean (map (\<lambda>x. fmul (fsub x m) (fsub x m)) xs))"

text \<open>\<open>x.std()\<close> with the default \<open>ddof = 0\<close>: the square root of \<open>x.var()\<close>.\<close>

definition np_std :: "fnum list \<Rightarrow> fnum" where
  "np_std xs = fsqrt (np_var xs)"

text \<open>Elementwise operations on two arrays of one shape, and an array with a scalar.\<close>

definition vmul :: "fnum list \<Rightarrow> fnum list \<Rightarrow> fnum list" where
  "vmul xs ys = map (\<lambda>(x, y). fmul x y) (zip xs ys)"

definition vadd :: "fnum list \<Rightarrow> fnum list \<Rightarrow> fnum list" where
  "vadd xs ys = map (\<lambda>(x, y). fadd x y) (zip xs ys)"

definition vdiv :: "fnum list \<Rightarrow> fnum list \<Rightarrow> fnum list" where
  "vdiv xs ys = map (\<lambda>(x, y). fdiv x y) (zip xs ys)"

text \<open>\<open>np.zeros((days, trials))\<close>.\<close>

definition np_zeros :: "nat \<Rightarrow> nat \<Rightarrow> fnum list list" where
  "np_zeros d n = replicate d (replicate n (Fin 0))"

section \<open>The random source\<close>

text \<open>
  \<open>np.random.rand\<close> reads numpy's global generator: a stream of uniform draws from
  [0, 1) and the number of draws consumed so far. \<open>rand d n\<close> fills a \<open>d \<times> n\<close> array
  row by row with the next \<open>d * n\<close> draws.
\<close>

record rng =
  draws :: "nat \<Rightarrow> real"
  consumed :: nat

definition rand :: "nat \<Rightarrow> nat \<Rightarrow> rng \<Rightarrow> real list list \<times> rng" where
  "rand d n g =
     (map (\<lambda>t. map (\<lambda>k. draws g (consumed g + t * n + k)) [0..<n]) [0..<d],
      g\<lparr>consumed := consumed g + d * n\<rparr>)"

section \<open>Log returns\<close>

text \<open>
  \<open>calculate_log_returns\<close>: \<open>np.log(np.array(opens[1:]) / np.array(opens[:-1]))\<close>.
  \<open>opens[1:]\<close> is \<open>tl opens\<close> and \<open>opens[:-1]\<close> is \<open>butlast opens\<close>, both empty for
  an empty list.
\<close>

definition calculate_log_returns :: "fnum list \<Rightarrow> fnum list" where
  "calculate_log_returns opens = map flog (vdiv (tl opens) (butlast opens))"

section \<open>Simulation of one stock\<close>

text \<open>The locals \<open>drift\<close> and \<open>stdev\<close> of \<open>monte_carlo_simulation_single_stock\<close>.\<close>

definition drift :: "fnum list \<Rightarrow> fnum" where
  "drift log_returns =
     (let u = np_mean log_returns; var = np_var log_returns
      in fsub u (fmul (Fin 0.5) var))"

definition stdev :: "fnum list \<Rightarrow> fnum" where
  "stdev log_returns = np_std log_returns"

text \<open>
  \<open>Z = norm.ppf(np.random.rand(days, trials))\<close>. scipy's quantile function \<open>norm.ppf\<close>
  is taken as a parameter \<open>ppf\<close>; it yields -inf at 0.
\<close>

definition normal_variates ::
  "(real \<Rightarrow> fnum) \<Rightarrow> nat \<Rightarrow> nat \<Rightarrow> rng \<Rightarrow> fnum list list \<times> rng" where
  "normal_variates ppf d n g = (let (U, g') = rand d n g in (map (map ppf) U, g'))"

text \<open>\<open>daily_returns = np.exp(drift + stdev * Z)\<close>.\<close>

definition daily_returns_of :: "fnum \<Rightarrow> fnum \<Rightarrow> fnum list list \<Rightarrow> fnum list list" where
  "daily_returns_of dr sd Z = map (map (\<lambda>z. fexp (fadd dr (fmul sd z)))) Z"

text \<open>
  The price paths: a \<open>days \<times> trials\<close> array of zeros, row 0 set to the current price
  (IndexError when there is no row 0), then for \<open>t\<close> in \<open>range(1, days)\<close> row \<open>t\<close> is
  row \<open>t - 1\<close> times row \<open>t\<close> of the daily returns.
\<close>

definition path_step :: "fnum list list \<Rightarrow> fnum list list \<Rightarrow> nat \<Rightarrow> fnum list list" where
  "path_step daily_returns price_paths t =
     price_paths[t := vmul (price_paths ! (t - 1)) (daily_returns ! t)]"

definition simulate_price_paths ::
  "nat \<Rightarrow> nat \<Rightarrow> fnum list list \<Rightarrow> fnum \<Rightarrow> py_error + fnum list list" where
  "simulate_price_paths days trials daily_returns current_price =
     (if days = 0 then Inl IndexError
      else Inr (foldl (path_step daily_returns)
                  ((np_zeros days trials)[0 := replicate trials current_price])
                  [1..<days]))"

text \<open>
  The local \<open>price_paths\<close> of \<open>monte_carlo_simulation_single_stock\<close>, with the state
  of the generator after the draw.
\<close>

definition price_paths_of ::
  "(real \<Rightarrow> fnum) \<Rightarrow> nat \<Rightarrow> nat \<Rightarrow> fnum list \<Rightarrow> fnum \<Rightarrow> rng
     \<Rightarrow> py_error + (fnum list list \<times> rng)" where
  "price_paths_of ppf trials days log_returns current_price g =
     (let (Z, g') = normal_variates ppf days trials g;
          daily_returns = daily_returns_of (drift log_returns) (stdev log_returns) Z
      in case simulate_price_paths days trials daily_returns current_price of
           Inl e \<Rightarrow> Inl e
         | Inr price_paths \<Rightarrow> Inr (price_paths, g'))"

text \<open>
  \<open>monte_carlo_simulation_single_stock\<close>, without its plot. A negative \<open>days\<close> or
  \<open>trials\<close> makes \<open>np.random.rand\<close> raise ValueError. \<open>initial_investment / current_price\<close>
  divides two Python floats. The function returns \<open>portfolio_values\<close> and
  \<open>individual_stock_returns\<close>; the model returns the generator's new state with them.
\<close>

definition monte_carlo_simulation_single_stock ::
  "(real \<Rightarrow> fnum) \<Rightarrow> int \<Rightarrow> int \<Rightarrow> fnum list \<Rightarrow> fnum \<Rightarrow> fnum \<Rightarrow> rng
     \<Rightarrow> py_error + ((fnum list \<times> fnum list) \<times> rng)" where
  "monte_carlo_simulation_single_stock ppf trials days log_returns current_price
       initial_investment g =
     (if days < 0 \<or> trials < 0 then Inl ValueError
      else
        case price_paths_of ppf (nat trials) (nat days) log_returns current_price g of
          Inl e \<Rightarrow> Inl e
        | Inr (price_paths, g') \<Rightarrow>
            (let final_prices = last price_paths in
             case py_div initial_investment current_price of
               Inl e \<Rightarrow> Inl e
             | Inr shares \<Rightarrow>
                 (let portfolio_values = map (\<lambda>p. fmul p shares) final_prices;
                      individual_stock_returns =
                        map (\<lambda>p. fmul (fdiv (fsub p current_price) current_price) (Fin 100))
                          final_prices
                  in Inr ((portfolio_values, individual_stock_returns), g'))))"

section \<open>Simulation of the portfolio\<close>

text \<open>
  \<open>monte_carlo_simulation_portfolio\<close>, without its plots. Each stock file is given by
  the list of open prices that \<open>load_stock_data\<close> returns for it. The loop over
  \<open>enumerate(stock_files)\<close> carries the grid \<open>portfolio_values\<close>, the list
  \<open>portfolio_returns\<close> and the generator. \<open>opens[-1]\<close> raises IndexError on an empty
  list and \<open>weights[i]\<close> when there is no weight \<open>i\<close>;
  \<open>portfolio_values += stock_portfolio_values\<close> adds the vector to every row of the grid.
\<close>

fun portfolio_loop ::
  "(real \<Rightarrow> fnum) \<Rightarrow> fnum list \<Rightarrow> int \<Rightarrow> int \<Rightarrow> fnum \<Rightarrow> nat \<Rightarrow> fnum list list
     \<Rightarrow> fnum list list \<times> fnum list \<times> rng
     \<Rightarrow> py_error + (fnum list list \<times> fnum list \<times> rng)" where
  "portfolio_loop ppf weights trials days initial_investment i [] s = Inr s"
| "portfolio_loop ppf weights trials days initial_investment i (opens # rest)
       (portfolio_values, portfolio_returns, g) =
     (let log_returns = calculate_log_returns opens in
      if opens = [] then Inl IndexError
      else
        let current_price = last opens in
        if length weights \<le> i then Inl IndexError
        else
          case monte_carlo_simulation_single_stock ppf trials days log_returns current_price
                 (fmul initial_investment (weights ! i)) g of
            Inl e \<Rightarrow> Inl e
          | Inr ((stock_portfolio_values, individual_stock_returns), g') \<Rightarrow>
              portfolio_loop ppf weights trials days initial_investment (Suc i) rest
                (map (\<lambda>row. vadd row stock_portfolio_values) portfolio_values,
                 portfolio_returns @ [np_mean individual_stock_returns],
                 g'))"

text \<open>
  The Python function returns nothing and hands its values to the plots; the model
  returns them: the grid, its last row and the average return of each stock.
  \<open>np.zeros\<close> raises ValueError on a negative dimension, \<open>portfolio_values[-1, :]\<close>
  IndexError on a grid without rows.
\<close>

record portfolio_result =
  portfolio_values :: "fnum list list"
  final_portfolio_values :: "fnum list"
  portfolio_returns :: "fnum list"

definition monte_carlo_simulation_portfolio ::
  "(real \<Rightarrow> fnum) \<Rightarrow> fnum list list \<Rightarrow> fnum list \<Rightarrow> int \<Rightarrow> int \<Rightarrow> fnum \<Rightarrow> rng
     \<Rightarrow> py_error + (portfolio_result \<times> rng)" where
  "monte_carlo_simulation_portfolio ppf stock_files weights trials days initial_investment g =
     (if days < 0 \<or> trials < 0 then Inl ValueError
      else
        case portfolio_loop ppf weights trials days initial_investment 0 stock_files
               (np_zeros (nat days) (nat trials), [], g) of
          Inl e \<Rightarrow> Inl e
        | Inr (pv, rets, g') \<Rightarrow>
            if pv = [] then Inl IndexError
            else Inr (\<lparr>portfolio_values = pv, final_portfolio_values = last pv,
                        portfolio_returns = rets\<rparr>, g'))"

section \<open>Quantities of the portfolio loop\<close>

text \<open>
  Names for what the loop of \<open>monte_carlo_simulation_portfolio\<close> computes for one stock:
  the terminal prices of the stock (the last row of its price paths, empty when the
  simulation raises), the generator as it stands when the loop reaches stock \<open>i\<close>, the
  vector \<open>stock_portfolio_values\<close> and the list of these vectors in the order of the loop.
\<close>

definition final_prices_of ::
  "(real \<Rightarrow> fnum) \<Rightarrow> nat \<Rightarrow> nat \<Rightarrow> fnum list \<Rightarrow> rng \<Rightarrow> fnum list" where
  "final_prices_of ppf trials days opens g =
     (case price_paths_of ppf trials days (calculate_log_returns opens) (last opens) g of
        Inl e \<Rightarrow> []
      | Inr (price_paths, g') \<Rightarrow> last price_paths)"

definition asset_rng :: "rng \<Rightarrow> nat \<Rightarrow> nat \<Rightarrow> nat \<Rightarrow> rng" where
  "asset_rng g days trials i = g\<lparr>consumed := consumed g + i * (days * trials)\<rparr>"

definition stock_vector ::
  "(real \<Rightarrow> fnum) \<Rightarrow> nat \<Rightarrow> nat \<Rightarrow> fnum \<Rightarrow> fnum list \<Rightarrow> rng \<Rightarrow> fnum list" where
  "stock_vector ppf trials days allocation opens g =
     map (\<lambda>p. fmul p (fdiv allocation (last opens))) (final_prices_of ppf trials days opens g)"

fun stock_vectors ::
  "(real \<Rightarrow> fnum) \<Rightarrow> fnum list \<Rightarrow> nat \<Rightarrow> nat \<Rightarrow> fnum \<Rightarrow> nat \<Rightarrow> fnum list list \<Rightarrow> rng
     \<Rightarrow> fnum list list" where
  "stock_vectors ppf weights trials days initial_investment i [] g = []"
| "stock_vectors ppf weights trials days initial_investment i (opens # rest) g =
     stock_vector ppf trials days (fmul initial_investment (weights ! i)) opens g
       # stock_vectors ppf weights trials days initial_investment (Suc i) rest
           (asset_rng g days trials (Suc 0))"

section \<open>Example inputs\<close>

text \<open>
  A stand-in for the quantile function with its values at 0 and at 1/2, and two
  generators: one whose draws are all 1/2 and one whose draws are all 0.
\<close>

definition ppf_example :: "real \<Rightarrow> fnum" where
  "ppf_example u = (if u = 0 then NegInf else Fin (u - 1 / 2))"

definition rng_half :: rng where
  "rng_half = \<lparr>draws = (\<lambda>n. 1 / 2), consumed = 0\<rparr>"


section \<open>Properties of the price paths\<close>

lemma length_vmul: "length (vmul xs ys) = min (length xs) (length ys)"
  by (simp add: vmul_def)

lemma nth_vmul: "k < length xs \<Longrightarrow> k < length ys \<Longrightarrow> vmul xs ys ! k = fmul (xs ! k) (ys ! k)"
  by (simp add: vmul_def)

lemma length_path_step: "length (path_step dr pp t) = length pp"
  by (simp add: path_step_def)

lemma length_foldl_path_step: "length (foldl (path_step dr) pp ts) = length pp"
  by (induction ts arbitrary: pp) (simp_all add: length_path_step)

lemma upt_1_Suc: "0 < m \<Longrightarrow> [1..<Suc m] = [1..<m] @ [m]"
  by simp

lemma paths_fold_inv:
  assumes "m \<le> length pp0" "0 < m"
  shows "(\<forall>t. t < length pp0 \<and> (t = 0 \<or> m \<le> t) \<longrightarrow> foldl (path_step dr) pp0 [1..<m] ! t = pp0 ! t)
       \<and> (\<forall>t. 1 \<le> t \<and> t < m \<longrightarrow>
            foldl (path_step dr) pp0 [1..<m] ! t
              = vmul (foldl (path_step dr) pp0 [1..<m] ! (t - 1)) (dr ! t))"
  using assms
proof (induction m)
  case 0
  then show ?case by simp
next
  case (Suc m)
  show ?case
  proof (cases "m = 0")
    case True
    then show ?thesis by simp
  next
    case False
    then have m: "0 < m" "m \<le> length pp0" using Suc.prems by simp_all
    let ?pp = "foldl (path_step dr) pp0 [1..<m]"
    have len: "length ?pp = length pp0" by (rule length_foldl_path_step)
    have step: "foldl (path_step dr) pp0 [1..<Suc m] = ?pp[m := vmul (?pp ! (m - 1)) (dr ! m)]"
      using m by (simp add: path_step_def)
    from Suc.IH[OF m(2) m(1)] have ih1: "\<And>t. t < length pp0 \<Longrightarrow> t = 0 \<or> m \<le> t \<Longrightarrow> ?pp ! t = pp0 ! t"
      and ih2: "\<And>t. 1 \<le> t \<Longrightarrow> t < m \<Longrightarrow> ?pp ! t = vmul (?pp ! (t - 1)) (dr ! t)"
      by blast+
    show ?thesis
    proof (intro conjI allI impI)
      fix t assume "t < length pp0 \<and> (t = 0 \<or> Suc m \<le> t)"
      then show "foldl (path_step dr) pp0 [1..<Suc m] ! t = pp0 ! t"
        unfolding step using m ih1[of t] by auto
    next
      fix t assume t: "1 \<le> t \<and> t < Suc m"
      show "foldl (path_step dr) pp0 [1..<Suc m] ! t
              = vmul (foldl (path_step dr) pp0 [1..<Suc m] ! (t - 1)) (dr ! t)"
      proof (cases "t = m")
        case True
        then show ?thesis unfolding step using Suc.prems len m by simp
      next
        case False
        then have "t < m" using t by simp
        then show ?thesis unfolding step using t ih2[of t] len m by simp
      qed
    qed
  qed
qed

lemma normal_variates_fst:
  "fst (normal_variates ppf d n g)
     = map (\<lambda>t. map (\<lambda>k. ppf (draws g (consumed g + t * n + k))) [0..<n]) [0..<d]"
  by (simp add: normal_variates_def rand_def comp_def)

lemma normal_variates_snd:
  "snd (normal_variates ppf d n g) = g\<lparr>consumed := consumed g + d * n\<rparr>"
  by (simp add: normal_variates_def rand_def)

lemma normal_variates_nth:
  "t < d \<Longrightarrow> k < n \<Longrightarrow>
     fst (normal_variates ppf d n g) ! t ! k = ppf (draws g (consumed g + t * n + k))"
  by (simp add: normal_variates_fst)

lemma daily_returns_nth:
  "t < length Z \<Longrightarrow> k < length (Z ! t) \<Longrightarrow>
     daily_returns_of dr sd Z ! t ! k = fexp (fadd dr (fmul sd (Z ! t ! k)))"
  by (simp add: daily_returns_of_def)

lemma daily_returns_shape:
  "length (daily_returns_of dr sd Z) = length Z"
  "t < length Z \<Longrightarrow> length (daily_returns_of dr sd Z ! t) = length (Z ! t)"
  by (simp_all add: daily_returns_of_def)

lemma normal_variates_shape:
  "length (fst (normal_variates ppf d n g)) = d"
  "t < d \<Longrightarrow> length (fst (normal_variates ppf d n g) ! t) = n"
  by (simp_all add: normal_variates_fst)

text \<open>The rows of the simulated paths.\<close>

lemma simulate_price_paths_rows:
  assumes "0 < days"
  shows "\<exists>pp. simulate_price_paths days trials dr cp = Inr pp \<and> length pp = days
           \<and> pp ! 0 = replicate trials cp
           \<and> (\<forall>t. 1 \<le> t \<and> t < days \<longrightarrow> pp ! t = vmul (pp ! (t - 1)) (dr ! t))"
proof -
  let ?init = "(np_zeros days trials)[0 := replicate trials cp]"
  let ?pp = "foldl (path_step dr) ?init [1..<days]"
  have len0: "length ?init = days" by (simp add: np_zeros_def)
  have inv: "(\<forall>t. t < length ?init \<and> (t = 0 \<or> days \<le> t) \<longrightarrow> ?pp ! t = ?init ! t)
       \<and> (\<forall>t. 1 \<le> t \<and> t < days \<longrightarrow> ?pp ! t = vmul (?pp ! (t - 1)) (dr ! t))"
  proof -
    have "days \<le> length ?init" by (simp only: len0)
    from paths_fold_inv[OF this assms, of dr] show ?thesis .
  qed
  have "?pp ! 0 = ?init ! 0" using inv assms len0 by simp
  also have "\<dots> = replicate trials cp" using assms by (simp add: np_zeros_def)
  finally have r0: "?pp ! 0 = replicate trials cp" .
  have "simulate_price_paths days trials dr cp = Inr ?pp"
    using assms by (simp add: simulate_price_paths_def)
  moreover have "length ?pp = days" by (simp only: length_foldl_path_step len0)
  ultimately show ?thesis using r0 inv by blast
qed

lemma rows_length:
  assumes "pp ! 0 = replicate trials cp"
    and "\<forall>t. 1 \<le> t \<and> t < days \<longrightarrow> pp ! t = vmul (pp ! (t - 1)) (dr ! t)"
    and "\<forall>t < days. length (dr ! t) = trials"
  shows "t < days \<Longrightarrow> length (pp ! t) = trials"
proof (induction t)
  case 0
  then show ?case using assms(1) by simp
next
  case (Suc t)
  then have "length (pp ! t) = trials" by simp
  moreover have "pp ! Suc t = vmul (pp ! t) (dr ! Suc t)" using assms(2) Suc.prems by simp
  ultimately show ?case using assms(3) Suc.prems by (simp add: length_vmul)
qed


lemma upt_1_2: "[1..<2] = [1::nat]"
  by (simp add: upt_rec)

lemma sim_flat:
  "simulate_price_paths 2 1 [[Fin 1], [Fin 1]] (Fin 100) = Inr [[Fin 100], [Fin 100]]"
proof -
  have z: "np_zeros 2 1 = [[Fin 0], [Fin 0]]"
    by (simp add: np_zeros_def numeral_2_eq_2)
  show ?thesis
    unfolding simulate_price_paths_def z upt_1_2
    by (simp add: path_step_def vmul_def)
qed


lemma price_paths_of_rows:
  assumes "0 < days"
  shows "\<exists>pp. price_paths_of ppf trials days log_returns current_price g
                 = Inr (pp, snd (normal_variates ppf days trials g))
           \<and> length pp = days
           \<and> (\<forall>t<days. length (pp ! t) = trials)
           \<and> (\<forall>k<trials. pp ! 0 ! k = current_price)
           \<and> (\<forall>t k. 1 \<le> t \<and> t < days \<and> k < trials \<longrightarrow>
                 pp ! t ! k =
                   fmul (pp ! (t - 1) ! k)
                     (fexp (fadd (drift log_returns)
                        (fmul (stdev log_returns)
                           (fst (normal_variates ppf days trials g) ! t ! k)))))"
proof -
  let ?Z = "fst (normal_variates ppf days trials g)"
  let ?dr = "daily_returns_of (drift log_returns) (stdev log_returns) ?Z"
  obtain pp where pp: "simulate_price_paths days trials ?dr current_price = Inr pp"
    "length pp = days" "pp ! 0 = replicate trials current_price"
    "\<forall>t. 1 \<le> t \<and> t < days \<longrightarrow> pp ! t = vmul (pp ! (t - 1)) (?dr ! t)"
    using simulate_price_paths_rows[OF assms] by blast
  have drlen: "\<forall>t<days. length (?dr ! t) = trials"
    by (simp add: daily_returns_shape normal_variates_shape)
  have rl: "\<And>t. t < days \<Longrightarrow> length (pp ! t) = trials"
    using rows_length[OF pp(3) pp(4) drlen] .
  have eq: "price_paths_of ppf trials days log_returns current_price g
          = Inr (pp, snd (normal_variates ppf days trials g))"
    using pp(1) by (simp add: price_paths_of_def split_beta)
  have step: "pp ! t ! k = fmul (pp ! (t - 1) ! k)
                     (fexp (fadd (drift log_returns)
                        (fmul (stdev log_returns) (?Z ! t ! k))))"
    if "1 \<le> t" "t < days" "k < trials" for t k
  proof -
    have "pp ! t = vmul (pp ! (t - 1)) (?dr ! t)" using pp(4) that by simp
    moreover have "length (pp ! (t - 1)) = trials" using rl[of "t - 1"] that by simp
    moreover have "length (?dr ! t) = trials" using drlen that by simp
    ultimately have "pp ! t ! k = fmul (pp ! (t - 1) ! k) (?dr ! t ! k)"
      using that by (simp add: nth_vmul)
    also have "?dr ! t ! k = fexp (fadd (drift log_returns) (fmul (stdev log_returns) (?Z ! t ! k)))"
      using that by (simp add: daily_returns_nth normal_variates_shape)
    finally show ?thesis .
  qed
  show ?thesis
    using eq pp(2) rl pp(3) step by auto
qed

text \<open>
  C2: with at least one day the simulation returns a \<open>days \<times> trials\<close> array of
  price paths whose row 0 is the current price in every trial, and whose entry for day
  \<open>t \<ge> 1\<close> and trial \<open>k\<close> is the entry of day \<open>t - 1\<close> of the same trial
  times \<open>exp (drift + stdev * Z[t][k])\<close>.
\<close>

theorem price_path_recurrence:
  assumes "0 < days"
  shows "\<exists>pp g'. price_paths_of ppf trials days log_returns current_price g = Inr (pp, g')
           \<and> length pp = days
           \<and> (\<forall>t<days. length (pp ! t) = trials)
           \<and> (\<forall>k<trials. pp ! 0 ! k = current_price)
           \<and> (\<forall>t k. 1 \<le> t \<and> t < days \<and> k < trials \<longrightarrow>
                 pp ! t ! k =
                   fmul (pp ! (t - 1) ! k)
                     (fexp (fadd (drift log_returns)
                        (fmul (stdev log_returns)
                           (fst (normal_variates ppf days trials g) ! t ! k)))))"
  using price_paths_of_rows[OF assms, of ppf trials log_returns current_price g] by blast

theorem price_path_recurrence_witness:
  "(0::nat) < 2 \<and>
   (\<exists>pp g'. price_paths_of (\<lambda>u. Fin (u - 1/2)) 1 2 [Fin 0] (Fin 100)
                \<lparr>draws = (\<lambda>_. 1/2), consumed = 0\<rparr> = Inr (pp, g')
      \<and> length pp = 2 \<and> pp ! 0 ! 0 = Fin 100
      \<and> pp ! 1 ! 0 =
           fmul (pp ! 0 ! 0)
             (fexp (fadd (drift [Fin 0])
                (fmul (stdev [Fin 0])
                   (fst (normal_variates (\<lambda>u. Fin (u - 1/2)) 2 1
                           \<lparr>draws = (\<lambda>_. 1/2), consumed = 0\<rparr>) ! 1 ! 0)))))"
proof -
  have h: "(0::nat) < 2" by simp
  from price_path_recurrence[OF h, of "\<lambda>u. Fin (u - 1/2)" 1 "[Fin 0]" "Fin 100"
         "\<lparr>draws = (\<lambda>_. 1/2), consumed = 0\<rparr>"]
  obtain pp g' where eq: "price_paths_of (\<lambda>u. Fin (u - 1/2)) 1 2 [Fin 0] (Fin 100)
                \<lparr>draws = (\<lambda>_. 1/2), consumed = 0\<rparr> = Inr (pp, g')"
    and len: "length pp = 2" and r0: "\<forall>k<1. pp ! 0 ! k = Fin 100"
    and rt: "\<forall>t k. 1 \<le> t \<and> t < 2 \<and> k < 1 \<longrightarrow>
                 pp ! t ! k =
                   fmul (pp ! (t - 1) ! k)
                     (fexp (fadd (drift [Fin 0])
                        (fmul (stdev [Fin 0])
                           (fst (normal_variates (\<lambda>u. Fin (u - 1/2)) 2 1
                           \<lparr>draws = (\<lambda>_. 1/2), consumed = 0\<rparr>) ! t ! k))))"
    by blast
  from r0 have a: "pp ! 0 ! 0 = Fin 100" by simp
  have "(1::nat) \<le> 1 \<and> (1::nat) < 2 \<and> (0::nat) < 1" by simp
  from rt[rule_format, OF this] have b: "pp ! 1 ! 0 =
                   fmul (pp ! 0 ! 0)
                     (fexp (fadd (drift [Fin 0])
                        (fmul (stdev [Fin 0])
                           (fst (normal_variates (\<lambda>u. Fin (u - 1/2)) 2 1
                           \<lparr>draws = (\<lambda>_. 1/2), consumed = 0\<rparr>) ! 1 ! 0))))"
    by simp
  from h eq len a b show ?thesis by blast
qed

text \<open>
  C9: one stock at price 100, two days, one trial, drift 0, standard deviation 0 and
  every normal variate 0: the path is 100 on both days.
\<close>

theorem flat_path_scenario:
  assumes "drift log_returns = Fin 0" and "stdev log_returns = Fin 0"
    and "fst (normal_variates ppf 2 1 g) = [[Fin 0], [Fin 0]]"
  shows "\<exists>g'. price_paths_of ppf 1 2 log_returns (Fin 100) g
                 = Inr ([[Fin 100], [Fin 100]], g')"
proof -
  obtain Z g' where zg: "normal_variates ppf 2 1 g = (Z, g')"
    by (cases "normal_variates ppf 2 1 g")
  with assms(3) have Z: "Z = [[Fin 0], [Fin 0]]" by simp
  have dr: "daily_returns_of (Fin 0) (Fin 0) Z = [[Fin 1], [Fin 1]]"
    by (simp add: Z daily_returns_of_def)
  have "price_paths_of ppf 1 2 log_returns (Fin 100) g = Inr ([[Fin 100], [Fin 100]], g')"
    unfolding price_paths_of_def zg assms(1,2) Let_def prod.case dr sim_flat by simp
  then show ?thesis by blast
qed


theorem flat_path_scenario_witness:
  "drift [Fin 0] = Fin 0 \<and> stdev [Fin 0] = Fin 0
   \<and> fst (normal_variates (\<lambda>u. Fin (u - 1/2)) 2 1 \<lparr>draws = (\<lambda>_. 1/2), consumed = 0\<rparr>)
       = [[Fin 0], [Fin 0]]
   \<and> (\<exists>g'. price_paths_of (\<lambda>u. Fin (u - 1/2)) 1 2 [Fin 0] (Fin 100)
              \<lparr>draws = (\<lambda>_. 1/2), consumed = 0\<rparr>
            = Inr ([[Fin 100], [Fin 100]], g'))"
proof -
  have a: "drift [Fin 0] = Fin 0"
    by (simp add: drift_def np_mean_def np_var_def np_sum_def fsub_def)
  have b: "stdev [Fin 0] = Fin 0"
    by (simp add: stdev_def np_std_def np_mean_def np_var_def np_sum_def fsub_def)
  have c: "fst (normal_variates (\<lambda>u. Fin (u - 1/2)) 2 1 \<lparr>draws = (\<lambda>_. 1/2), consumed = 0\<rparr>)
       = [[Fin 0], [Fin 0]]"
    by (simp add: normal_variates_fst numeral_2_eq_2)
  from flat_path_scenario[OF a b c] a b c show ?thesis by blast
qed

section \<open>Helper lemmas: one stock, statistics\<close>

lemma price_paths_of_days:
  "price_paths_of ppf trials days lr cp g = Inr (pp, g') \<Longrightarrow> 0 < days"
  by (auto simp: price_paths_of_def simulate_price_paths_def split_beta split: if_splits)

lemma price_paths_of_last:
  assumes "price_paths_of ppf trials days lr cp g = Inr (pp, g')"
  shows "length (last pp) = trials" and "g' = snd (normal_variates ppf days trials g)"
    and "last pp = pp ! (days - 1)" and "length pp = days"
proof -
  have d: "0 < days" using assms by (rule price_paths_of_days)
  from price_paths_of_rows[OF d, of ppf trials lr cp g] assms
  have len: "length pp = days" and rows: "\<forall>t<days. length (pp ! t) = trials"
    and g: "g' = snd (normal_variates ppf days trials g)"
    by auto
  show "length pp = days" by (rule len)
  have "pp \<noteq> []" using len d by auto
  then show l: "last pp = pp ! (days - 1)" using len by (simp add: last_conv_nth)
  show "length (last pp) = trials" using rows d by (simp add: l)
  show "g' = snd (normal_variates ppf days trials g)" by (rule g)
qed

lemma single_stock_returns:
  assumes "0 < days" and "0 \<le> trials" and "cp \<noteq> Fin 0"
  shows "\<exists>pp. price_paths_of ppf (nat trials) (nat days) lr cp g
                 = Inr (pp, snd (normal_variates ppf (nat days) (nat trials) g))
           \<and> monte_carlo_simulation_single_stock ppf trials days lr cp ii g
               = Inr ((map (\<lambda>p. fmul p (fdiv ii cp)) (last pp),
                       map (\<lambda>p. fmul (fdiv (fsub p cp) cp) (Fin 100)) (last pp)),
                      snd (normal_variates ppf (nat days) (nat trials) g))"
proof -
  have d: "0 < nat days" using assms(1) by simp
  from price_paths_of_rows[OF d, of ppf "nat trials" lr cp g]
  obtain pp where pp: "price_paths_of ppf (nat trials) (nat days) lr cp g
                 = Inr (pp, snd (normal_variates ppf (nat days) (nat trials) g))"
    by blast
  have "monte_carlo_simulation_single_stock ppf trials days lr cp ii g
               = Inr ((map (\<lambda>p. fmul p (fdiv ii cp)) (last pp),
                       map (\<lambda>p. fmul (fdiv (fsub p cp) cp) (Fin 100)) (last pp)),
                      snd (normal_variates ppf (nat days) (nat trials) g))"
    using assms by (simp add: monte_carlo_simulation_single_stock_def pp py_div_def Let_def)
  with pp show ?thesis by blast
qed

lemma single_stock_Inr:
  assumes "monte_carlo_simulation_single_stock ppf trials days lr cp ii g = Inr ((pv, isr), g')"
  shows "0 < days" and "0 \<le> trials" and "cp \<noteq> Fin 0"
  using assms
  by (auto simp: monte_carlo_simulation_single_stock_def py_div_def Let_def
      split: if_splits sum.splits dest: price_paths_of_days)

lemma foldl_path_step_cong:
  "(\<forall>t\<in>set ts. dr ! t = dr' ! t) \<Longrightarrow> foldl (path_step dr) pp ts = foldl (path_step dr') pp ts"
  by (induction ts arbitrary: pp) (simp_all add: path_step_def)

lemma simulate_price_paths_row0_unused:
  assumes "\<forall>t. 1 \<le> t \<and> t < days \<longrightarrow> dr ! t = dr' ! t"
  shows "simulate_price_paths days trials dr cp = simulate_price_paths days trials dr' cp"
proof -
  have "\<forall>t\<in>set [1..<days]. dr ! t = dr' ! t" using assms by simp
  then show ?thesis
    unfolding simulate_price_paths_def by (simp only: foldl_path_step_cong)
qed

lemma daily_returns_row_cong:
  assumes "length Z = days" "length Z' = days"
    and "\<forall>t. 1 \<le> t \<and> t < days \<longrightarrow> Z' ! t = Z ! t"
  shows "\<forall>t. 1 \<le> t \<and> t < days \<longrightarrow> daily_returns_of d s Z' ! t = daily_returns_of d s Z ! t"
  using assms by (simp add: daily_returns_of_def)

lemma foldl_fadd_Fin: "foldl fadd (Fin a) (map Fin xs) = Fin (a + sum_list xs)"
  by (induction xs arbitrary: a) (simp_all add: add.assoc)

lemma np_sum_Fin: "np_sum (map Fin xs) = Fin (sum_list xs)"
  by (simp add: np_sum_def foldl_fadd_Fin)

lemma np_mean_Fin: "xs \<noteq> [] \<Longrightarrow> np_mean (map Fin xs) = Fin (sum_list xs / real (length xs))"
  by (simp add: np_mean_def np_sum_Fin)

lemma np_var_Fin:
  assumes "xs \<noteq> []"
  shows "np_var (map Fin xs)
           = Fin ((\<Sum>x\<leftarrow>xs. (x - sum_list xs / real (length xs))\<^sup>2) / real (length xs))"
proof -
  let ?m = "sum_list xs / real (length xs)"
  have "map (\<lambda>x. fmul (fsub x (Fin ?m)) (fsub x (Fin ?m))) (map Fin xs)
          = map Fin (map (\<lambda>x. (x - ?m)\<^sup>2) xs)"
    by (simp add: fsub_def power2_eq_square)
  then have "np_var (map Fin xs) = np_mean (map Fin (map (\<lambda>x. (x - ?m)\<^sup>2) xs))"
    by (simp only: np_var_def Let_def np_mean_Fin[OF assms])
  also have "\<dots> = Fin (sum_list (map (\<lambda>x. (x - ?m)\<^sup>2) xs)
                        / real (length (map (\<lambda>x. (x - ?m)\<^sup>2) xs)))"
    by (rule np_mean_Fin) (simp add: assms)
  finally show ?thesis by simp
qed

lemma var_nonneg:
  "0 \<le> (\<Sum>x\<leftarrow>xs. (x - (m::real))\<^sup>2) / real (length xs)"
  by (intro divide_nonneg_nonneg sum_list_nonneg) auto

lemma stdev_Fin:
  assumes "xs \<noteq> []"
  shows "stdev (map Fin xs)
           = Fin (sqrt ((\<Sum>x\<leftarrow>xs. (x - sum_list xs / real (length xs))\<^sup>2) / real (length xs)))"
  using assms var_nonneg[of "sum_list xs / real (length xs)" xs]
  by (simp add: stdev_def np_std_def np_var_Fin)

lemma drift_Fin:
  assumes "xs \<noteq> []"
  shows "drift (map Fin xs)
           = Fin (sum_list xs / real (length xs)
                  - 0.5 * ((\<Sum>x\<leftarrow>xs. (x - sum_list xs / real (length xs))\<^sup>2) / real (length xs)))"
  using assms by (simp add: drift_def np_var_Fin np_mean_Fin fsub_def Let_def)

lemma calculate_log_returns_Fin:
  assumes "\<forall>p\<in>set ps. 0 < p"
  shows "calculate_log_returns (map Fin ps)
           = map Fin (map (\<lambda>t. ln (ps ! (t + 1) / ps ! t)) [0..<length ps - 1])"
proof (rule nth_equalityI)
  show "length (calculate_log_returns (map Fin ps))
          = length (map Fin (map (\<lambda>t. ln (ps ! (t + 1) / ps ! t)) [0..<length ps - 1]))"
    by (simp add: calculate_log_returns_def vdiv_def)
next
  fix i assume "i < length (calculate_log_returns (map Fin ps))"
  then have i: "i < length ps - 1" by (simp add: calculate_log_returns_def vdiv_def)
  then have pos: "0 < ps ! i" "0 < ps ! (i + 1)" using assms by simp_all
  have "calculate_log_returns (map Fin ps) ! i
          = flog (fdiv (Fin (ps ! (i + 1))) (Fin (ps ! i)))"
    using i by (simp add: calculate_log_returns_def vdiv_def nth_tl nth_butlast map_tl map_butlast)
  also have "\<dots> = Fin (ln (ps ! (i + 1) / ps ! i))" using pos by simp
  finally show "calculate_log_returns (map Fin ps) ! i
          = map Fin (map (\<lambda>t. ln (ps ! (t + 1) / ps ! t)) [0..<length ps - 1]) ! i"
    using i by simp
qed

lemma price_paths_2_1:
  "price_paths_of ppf 1 2 lr cp g
     = Inr ([[cp], [fmul cp (fexp (fadd (drift lr) (fmul (stdev lr)
                                     (ppf (draws g (consumed g + 1))))))]],
            g\<lparr>consumed := consumed g + 2\<rparr>)"
proof -
  have nv: "normal_variates ppf 2 1 g
              = ([[ppf (draws g (consumed g))], [ppf (draws g (consumed g + 1))]],
                 g\<lparr>consumed := consumed g + 2\<rparr>)"
    by (simp add: normal_variates_def rand_def numeral_2_eq_2)
  have z: "np_zeros 2 1 = [[Fin 0], [Fin 0]]"
    by (simp add: np_zeros_def numeral_2_eq_2)
  have sim: "simulate_price_paths 2 1 [[a], [b]] cp = Inr [[cp], [fmul cp b]]" for a b
    unfolding simulate_price_paths_def z upt_1_2
    by (simp add: path_step_def vmul_def)
  show ?thesis
    unfolding price_paths_of_def nv Let_def prod.case daily_returns_of_def list.map sim
    by simp
qed



lemma stats_zero: "drift [Fin 0] = Fin 0" "stdev [Fin 0] = Fin 0"
  by (simp_all add: drift_def stdev_def np_std_def np_var_def np_mean_def np_sum_def fsub_def)

lemma single_stock_2_1:
  "monte_carlo_simulation_single_stock ppf_example 1 2 [Fin 0] (Fin 100) (Fin 1000) rng_half
     = Inr (([Fin 1000], [Fin 0]), rng_half\<lparr>consumed := 2\<rparr>)"
proof -
  have pp: "price_paths_of ppf_example (nat 1) (nat 2) [Fin 0] (Fin 100) rng_half
     = Inr ([[Fin 100], [Fin 100]], rng_half\<lparr>consumed := 2\<rparr>)"
    unfolding nat_numeral nat_one_as_int[symmetric] price_paths_2_1 stats_zero
    by (simp add: ppf_example_def rng_half_def)
  show ?thesis
    unfolding monte_carlo_simulation_single_stock_def pp
    by (simp add: py_div_def fsub_def)
qed

section \<open>Claims about one stock\<close>

text \<open>
  C8: when the simulation of a stock returns (at least one day, a current price that is
  not zero), the percentage return of trial \<open>k\<close> is
  \<open>(terminal - current) / current * 100\<close>, where the terminal prices are the last row
  of the stock's price paths.
\<close>

theorem individual_returns_pct:
  assumes "0 < days" and "0 \<le> trials" and "current_price \<noteq> Fin 0"
  shows "\<exists>pp pv isr g'.
           price_paths_of ppf (nat trials) (nat days) log_returns current_price g = Inr (pp, g')
         \<and> monte_carlo_simulation_single_stock ppf trials days log_returns current_price
               initial_investment g = Inr ((pv, isr), g')
         \<and> length isr = nat trials
         \<and> (\<forall>k < nat trials.
               isr ! k = fmul (fdiv (fsub (last pp ! k) current_price) current_price) (Fin 100))
         \<and> (\<forall>k p c. k < nat trials \<and> last pp ! k = Fin p \<and> current_price = Fin c \<longrightarrow>
               isr ! k = Fin ((p - c) / c * 100))"
proof -
  from single_stock_returns[OF assms, of ppf log_returns g initial_investment]
  obtain pp where pp: "price_paths_of ppf (nat trials) (nat days) log_returns current_price g
                 = Inr (pp, snd (normal_variates ppf (nat days) (nat trials) g))"
    and ss: "monte_carlo_simulation_single_stock ppf trials days log_returns current_price
               initial_investment g
               = Inr ((map (\<lambda>p. fmul p (fdiv initial_investment current_price)) (last pp),
                       map (\<lambda>p. fmul (fdiv (fsub p current_price) current_price) (Fin 100)) (last pp)),
                      snd (normal_variates ppf (nat days) (nat trials) g))"
    by blast
  let ?isr = "map (\<lambda>p. fmul (fdiv (fsub p current_price) current_price) (Fin 100)) (last pp)"
  have len: "length (last pp) = nat trials" using price_paths_of_last(1)[OF pp] .
  have a: "length ?isr = nat trials" using len by simp
  have b: "\<forall>k < nat trials.
               ?isr ! k = fmul (fdiv (fsub (last pp ! k) current_price) current_price) (Fin 100)"
    using len by simp
  have c: "\<forall>k p c. k < nat trials \<and> last pp ! k = Fin p \<and> current_price = Fin c \<longrightarrow>
               ?isr ! k = Fin ((p - c) / c * 100)"
    using len assms(3) by (auto simp: fsub_def)
  from pp ss a b c show ?thesis by blast
qed

theorem individual_returns_pct_witness:
  "(0::int) < 2 \<and> (0::int) \<le> 1 \<and> Fin 100 \<noteq> Fin 0
   \<and> (\<exists>pp pv isr g'.
           price_paths_of ppf_example (nat 1) (nat 2) [Fin 0] (Fin 100) rng_half = Inr (pp, g')
         \<and> monte_carlo_simulation_single_stock ppf_example 1 2 [Fin 0] (Fin 100)
               (Fin 1000) rng_half = Inr ((pv, isr), g')
         \<and> length isr = nat 1
         \<and> (\<forall>k < nat 1.
               isr ! k = fmul (fdiv (fsub (last pp ! k) (Fin 100)) (Fin 100)) (Fin 100)))"
proof -
  have h: "(0::int) < 2" "(0::int) \<le> 1" "Fin 100 \<noteq> Fin 0" by simp_all
  from individual_returns_pct[OF h, of ppf_example "[Fin 0]" rng_half "Fin 1000"] h
  show ?thesis by blast
qed

text \<open>
  C4, as the code has it: one simulation consumes \<open>days * trials\<close> uniform draws, not
  \<open>(days - 1) * trials\<close>. \<open>Z[t][k]\<close> is the quantile of its own draw for every day
  \<open>t\<close> from 0 and every trial \<open>k\<close>; the variates of day 0 are drawn and do not
  enter the price paths.
\<close>

theorem draws_consumed:
  assumes "0 < days" and "0 \<le> trials" and "current_price \<noteq> Fin 0"
  shows "\<exists>r g'. monte_carlo_simulation_single_stock ppf trials days log_returns current_price
                   initial_investment g = Inr (r, g')
           \<and> consumed g' = consumed g + nat days * nat trials
           \<and> draws g' = draws g
           \<and> (\<forall>t k. t < nat days \<and> k < nat trials \<longrightarrow>
                 fst (normal_variates ppf (nat days) (nat trials) g) ! t ! k
                   = ppf (draws g (consumed g + t * nat trials + k)))
           \<and> (\<forall>Z'. length Z' = nat days
                   \<and> (\<forall>t. 1 \<le> t \<and> t < nat days \<longrightarrow>
                          Z' ! t = fst (normal_variates ppf (nat days) (nat trials) g) ! t) \<longrightarrow>
                 simulate_price_paths (nat days) (nat trials)
                     (daily_returns_of (drift log_returns) (stdev log_returns) Z') current_price
                 = simulate_price_paths (nat days) (nat trials)
                     (daily_returns_of (drift log_returns) (stdev log_returns)
                        (fst (normal_variates ppf (nat days) (nat trials) g))) current_price)"
proof -
  let ?g' = "snd (normal_variates ppf (nat days) (nat trials) g)"
  let ?Z = "fst (normal_variates ppf (nat days) (nat trials) g)"
  from single_stock_returns[OF assms, of ppf log_returns g initial_investment]
  obtain r where r: "monte_carlo_simulation_single_stock ppf trials days log_returns current_price
                   initial_investment g = Inr (r, ?g')"
    by blast
  have a: "consumed ?g' = consumed g + nat days * nat trials" and b: "draws ?g' = draws g"
    by (simp_all add: normal_variates_snd)
  have c: "\<forall>t k. t < nat days \<and> k < nat trials \<longrightarrow>
                 ?Z ! t ! k = ppf (draws g (consumed g + t * nat trials + k))"
    by (simp add: normal_variates_nth)
  have d: "simulate_price_paths (nat days) (nat trials)
                     (daily_returns_of (drift log_returns) (stdev log_returns) Z') current_price
                 = simulate_price_paths (nat days) (nat trials)
                     (daily_returns_of (drift log_returns) (stdev log_returns) ?Z) current_price"
    if "length Z' = nat days" "\<forall>t. 1 \<le> t \<and> t < nat days \<longrightarrow> Z' ! t = ?Z ! t" for Z'
  proof (rule simulate_price_paths_row0_unused)
    have "length ?Z = nat days" by (rule normal_variates_shape)
    from daily_returns_row_cong[OF this that(1) that(2)]
    show "\<forall>t. 1 \<le> t \<and> t < nat days \<longrightarrow>
       daily_returns_of (drift log_returns) (stdev log_returns) Z' ! t =
       daily_returns_of (drift log_returns) (stdev log_returns) ?Z ! t" .
  qed
  from r a b c d show ?thesis by blast
qed

theorem draws_consumed_witness:
  "(0::int) < 2 \<and> (0::int) \<le> 1 \<and> Fin 100 \<noteq> Fin 0
   \<and> (\<exists>r g'. monte_carlo_simulation_single_stock ppf_example 1 2 [Fin 0] (Fin 100)
                  (Fin 1000) rng_half = Inr (r, g')
           \<and> consumed g' = consumed rng_half + nat 2 * nat 1)"
proof -
  have h: "(0::int) < 2" "(0::int) \<le> 1" "Fin 100 \<noteq> Fin 0" by simp_all
  from draws_consumed[OF h, of ppf_example "[Fin 0]" "Fin 1000" rng_half] h
  show ?thesis by blast
qed

theorem draws_consumed_counterexample:
  "monte_carlo_simulation_single_stock ppf_example 1 2 [Fin 0] (Fin 100) (Fin 1000) rng_half
     = Inr (([Fin 1000], [Fin 0]), rng_half\<lparr>consumed := 2\<rparr>)
   \<and> consumed (rng_half\<lparr>consumed := 2\<rparr>) \<noteq> consumed rng_half + (2 - 1) * 1"
  unfolding single_stock_2_1 by (simp add: rng_half_def)

text \<open>
  C3: \<open>N \<ge> 2\<close> positive prices give exactly \<open>N - 1\<close> log returns
  \<open>ln (price\<^sub>t / price\<^sub>t\<^sub>-\<^sub>1)\<close>; the variance is the sum of their squared deviations
  from the mean divided by \<open>N - 1\<close>, the number of samples; the standard deviation is
  its square root and the drift is the mean minus half the variance.
\<close>

theorem return_statistics:
  assumes "2 \<le> length prices" and "\<forall>p\<in>set prices. 0 < p"
  shows "let n = length prices;
             r = map (\<lambda>t. ln (prices ! (t + 1) / prices ! t)) [0..<n - 1];
             mean = sum_list r / real (n - 1);
             variance = (\<Sum>x\<leftarrow>r. (x - mean)\<^sup>2) / real (n - 1)
         in calculate_log_returns (map Fin prices) = map Fin r
          \<and> length (calculate_log_returns (map Fin prices)) = n - 1
          \<and> np_mean (calculate_log_returns (map Fin prices)) = Fin mean
          \<and> np_var (calculate_log_returns (map Fin prices)) = Fin variance
          \<and> stdev (calculate_log_returns (map Fin prices)) = Fin (sqrt variance)
          \<and> drift (calculate_log_returns (map Fin prices)) = Fin (mean - 0.5 * variance)"
proof -
  let ?r = "map (\<lambda>t. ln (prices ! (t + 1) / prices ! t)) [0..<length prices - 1]"
  have clr: "calculate_log_returns (map Fin prices) = map Fin ?r"
    using assms(2) by (rule calculate_log_returns_Fin)
  have len: "length ?r = length prices - 1" by simp
  have ne: "?r \<noteq> []" using assms(1) by simp
  let ?mean = "sum_list ?r / real (length prices - 1)"
  let ?variance = "(\<Sum>x\<leftarrow>?r. (x - ?mean)\<^sup>2) / real (length prices - 1)"
  have m: "np_mean (map Fin ?r) = Fin ?mean"
    using np_mean_Fin[OF ne] by simp
  have v: "np_var (map Fin ?r) = Fin ?variance"
    using np_var_Fin[OF ne] by simp
  have sd: "stdev (map Fin ?r) = Fin (sqrt ?variance)"
    using stdev_Fin[OF ne] by simp
  have dr: "drift (map Fin ?r) = Fin (?mean - 0.5 * ?variance)"
    using drift_Fin[OF ne] by simp
  show ?thesis
    unfolding Let_def clr using m v sd dr by simp
qed

theorem return_statistics_witness:
  "2 \<le> length [1, 2 :: real] \<and> (0::real) < 1 \<and> (0::real) < 2
   \<and> calculate_log_returns (map Fin [1, 2]) = [Fin (ln 2)]
   \<and> length (calculate_log_returns (map Fin [1, 2])) = 1
   \<and> np_var (calculate_log_returns (map Fin [1, 2])) = Fin 0
   \<and> stdev (calculate_log_returns (map Fin [1, 2])) = Fin 0
   \<and> drift (calculate_log_returns (map Fin [1, 2])) = Fin (ln 2)"
proof -
  have h: "2 \<le> length [1, 2 :: real]" "\<forall>p\<in>set [1, 2 :: real]. 0 < p" by simp_all
  have u: "[0..<length [1, 2 :: real] - 1] = [0]" by simp
  from return_statistics[OF h] h show ?thesis
    unfolding Let_def u
    by (simp add: np_var_def np_mean_def np_sum_def stdev_def np_std_def drift_def fsub_def)
qed




section \<open>Helper lemmas: the portfolio loop\<close>

lemma asset_rng_0: "asset_rng g d n 0 = g"
  by (simp add: asset_rng_def)

lemma asset_rng_Suc: "asset_rng (asset_rng g d n (Suc 0)) d n j = asset_rng g d n (Suc j)"
  by (simp add: asset_rng_def algebra_simps)

lemma normal_variates_asset_rng:
  "snd (normal_variates ppf d n g) = asset_rng g d n (Suc 0)"
  by (simp add: normal_variates_snd asset_rng_def)

lemma length_stock_vectors:
  "length (stock_vectors ppf weights trials days ii i rest g) = length rest"
  by (induction rest arbitrary: i g) simp_all

lemma stock_vectors_nth:
  "j < length rest \<Longrightarrow>
     stock_vectors ppf weights trials days ii i rest g ! j
       = stock_vector ppf trials days (fmul ii (weights ! (i + j))) (rest ! j)
           (asset_rng g days trials j)"
proof (induction rest arbitrary: i g j)
  case Nil
  then show ?case by simp
next
  case (Cons opens rest)
  show ?case
  proof (cases j)
    case 0
    then show ?thesis by (simp add: asset_rng_0)
  next
    case (Suc j')
    then have "j' < length rest" using Cons.prems by simp
    from Cons.IH[OF this, of "Suc i" "asset_rng g days trials (Suc 0)"]
    show ?thesis by (simp add: Suc asset_rng_Suc)
  qed
qed

lemma single_stock_vector:
  assumes "0 < days" and "0 \<le> trials" and "opens \<noteq> []" and "last opens \<noteq> Fin 0"
  shows "\<exists>isr. monte_carlo_simulation_single_stock ppf trials days (calculate_log_returns opens)
                   (last opens) allocation g
                 = Inr ((stock_vector ppf (nat trials) (nat days) allocation opens g, isr),
                        asset_rng g (nat days) (nat trials) (Suc 0))"
proof -
  from single_stock_returns[OF assms(1,2,4), of ppf "calculate_log_returns opens" g allocation]
  obtain pp where pp: "price_paths_of ppf (nat trials) (nat days) (calculate_log_returns opens)
                          (last opens) g
                 = Inr (pp, snd (normal_variates ppf (nat days) (nat trials) g))"
    and ss: "monte_carlo_simulation_single_stock ppf trials days (calculate_log_returns opens)
               (last opens) allocation g
               = Inr ((map (\<lambda>p. fmul p (fdiv allocation (last opens))) (last pp),
                       map (\<lambda>p. fmul (fdiv (fsub p (last opens)) (last opens)) (Fin 100)) (last pp)),
                      snd (normal_variates ppf (nat days) (nat trials) g))"
    by blast
  have "stock_vector ppf (nat trials) (nat days) allocation opens g
          = map (\<lambda>p. fmul p (fdiv allocation (last opens))) (last pp)"
    by (simp add: stock_vector_def final_prices_of_def pp)
  then show ?thesis using ss by (simp add: normal_variates_asset_rng)
qed

lemma portfolio_loop_ok:
  assumes "0 < days" and "0 \<le> trials"
    and "\<forall>opens\<in>set rest. opens \<noteq> [] \<and> last opens \<noteq> Fin 0"
    and "i + length rest \<le> length weights"
  shows "\<exists>rets'. portfolio_loop ppf weights trials days ii i rest (pv, rets, g)
           = Inr (map (\<lambda>row. foldl vadd row
                         (stock_vectors ppf weights (nat trials) (nat days) ii i rest g)) pv,
                  rets',
                  asset_rng g (nat days) (nat trials) (length rest))"
  using assms(3,4)
proof (induction rest arbitrary: i pv rets g)
  case Nil
  then show ?case by (simp add: asset_rng_0)
next
  case (Cons opens rest)
  have o: "opens \<noteq> []" "last opens \<noteq> Fin 0" using Cons.prems(1) by simp_all
  have w: "\<not> length weights \<le> i" using Cons.prems(2) by simp
  from single_stock_vector[OF assms(1,2) o, of ppf "fmul ii (weights ! i)" g]
  obtain isr where ss: "monte_carlo_simulation_single_stock ppf trials days
                   (calculate_log_returns opens) (last opens) (fmul ii (weights ! i)) g
                 = Inr ((stock_vector ppf (nat trials) (nat days) (fmul ii (weights ! i)) opens g,
                         isr),
                        asset_rng g (nat days) (nat trials) (Suc 0))"
    by blast
  let ?v = "stock_vector ppf (nat trials) (nat days) (fmul ii (weights ! i)) opens g"
  have r: "\<forall>opens\<in>set rest. opens \<noteq> [] \<and> last opens \<noteq> Fin 0" using Cons.prems(1) by simp
  have l: "Suc i + length rest \<le> length weights" using Cons.prems(2) by simp
  from Cons.IH[OF r l, of "map (\<lambda>row. vadd row ?v) pv" "rets @ [np_mean isr]"
      "asset_rng g (nat days) (nat trials) (Suc 0)"]
  obtain rets' where ih: "portfolio_loop ppf weights trials days ii (Suc i) rest
           (map (\<lambda>row. vadd row ?v) pv, rets @ [np_mean isr],
            asset_rng g (nat days) (nat trials) (Suc 0))
           = Inr (map (\<lambda>row. foldl vadd row
                         (stock_vectors ppf weights (nat trials) (nat days) ii (Suc i) rest
                            (asset_rng g (nat days) (nat trials) (Suc 0))))
                    (map (\<lambda>row. vadd row ?v) pv),
                  rets',
                  asset_rng (asset_rng g (nat days) (nat trials) (Suc 0)) (nat days) (nat trials)
                    (length rest))"
    by blast
  have "portfolio_loop ppf weights trials days ii i (opens # rest) (pv, rets, g)
          = Inr (map (\<lambda>row. foldl vadd row
                         (stock_vectors ppf weights (nat trials) (nat days) ii i (opens # rest) g))
                   pv,
                 rets',
                 asset_rng g (nat days) (nat trials) (length (opens # rest)))"
    using o w by (simp add: ss ih asset_rng_Suc comp_def)
  then show ?case by blast
qed

lemma length_vadd: "length (vadd xs ys) = min (length xs) (length ys)"
  by (simp add: vadd_def)

lemma nth_vadd: "k < length xs \<Longrightarrow> k < length ys \<Longrightarrow> vadd xs ys ! k = fadd (xs ! k) (ys ! k)"
  by (simp add: vadd_def)

lemma foldl_vadd:
  assumes "\<forall>v\<in>set vs. length v = n" and "length row = n"
  shows "length (foldl vadd row vs) = n
       \<and> (\<forall>k<n. foldl vadd row vs ! k = foldl fadd (row ! k) (map (\<lambda>v. v ! k) vs))"
  using assms
proof (induction vs arbitrary: row)
  case Nil
  then show ?case by simp
next
  case (Cons v vs)
  have l: "length (vadd row v) = n" using Cons.prems by (simp add: length_vadd)
  have r: "\<forall>v\<in>set vs. length v = n" using Cons.prems by simp
  from Cons.IH[OF r l] show ?case using Cons.prems by (simp add: nth_vadd)
qed

lemma final_prices_of_length:
  assumes "0 < days"
  shows "length (final_prices_of ppf trials days opens g) = trials"
proof -
  from price_paths_of_rows[OF assms, of ppf trials "calculate_log_returns opens" "last opens" g]
  obtain pp where pp: "price_paths_of ppf trials days (calculate_log_returns opens) (last opens) g
                 = Inr (pp, snd (normal_variates ppf days trials g))"
    by blast
  from price_paths_of_last(1)[OF pp] show ?thesis
    by (simp add: final_prices_of_def pp)
qed

lemma length_stock_vector:
  "0 < days \<Longrightarrow> length (stock_vector ppf trials days a opens g) = trials"
  by (simp add: stock_vector_def final_prices_of_length)

lemma stock_vectors_lengths:
  assumes "0 < days"
  shows "\<forall>v\<in>set (stock_vectors ppf weights trials days ii i rest g). length v = trials"
  by (induction rest arbitrary: i g) (simp_all add: length_stock_vector[OF assms])

lemma map_nth_upt: "map (\<lambda>v. f v) vs = map (\<lambda>i. f (vs ! i)) [0..<length vs]"
  by (rule nth_equalityI) simp_all

lemma portfolio_entry:
  assumes "0 < days" and "k < trials"
  shows "foldl vadd (replicate trials (Fin 0)) (stock_vectors ppf weights trials days ii 0 stocks g) ! k
       = foldl fadd (Fin 0)
           (map (\<lambda>i. fmul (final_prices_of ppf trials days (stocks ! i)
                              (asset_rng g days trials i) ! k)
                        (fdiv (fmul ii (weights ! i)) (last (stocks ! i))))
              [0..<length stocks])"
proof -
  let ?vs = "stock_vectors ppf weights trials days ii 0 stocks g"
  have lens: "\<forall>v\<in>set ?vs. length v = trials"
    by (rule stock_vectors_lengths[OF assms(1)])
  have lr: "length (replicate trials (Fin 0)) = trials" by simp
  have "foldl vadd (replicate trials (Fin 0)) ?vs ! k
          = foldl fadd (replicate trials (Fin 0) ! k) (map (\<lambda>v. v ! k) ?vs)"
    using foldl_vadd[OF lens lr] assms(2) by blast
  also have "map (\<lambda>v. v ! k) ?vs = map (\<lambda>i. ?vs ! i ! k) [0..<length ?vs]"
    by (rule map_nth_upt)
  also have "\<dots> = map (\<lambda>i. fmul (final_prices_of ppf trials days (stocks ! i)
                              (asset_rng g days trials i) ! k)
                        (fdiv (fmul ii (weights ! i)) (last (stocks ! i))))
              [0..<length stocks]"
    using assms
    by (simp add: length_stock_vectors stock_vectors_nth stock_vector_def final_prices_of_length)
  finally show ?thesis using assms(2) by simp
qed

lemma portfolio_ok:
  assumes "0 < days" and "0 \<le> trials"
    and "\<forall>opens\<in>set stocks. opens \<noteq> [] \<and> last opens \<noteq> Fin 0"
    and "length stocks \<le> length weights"
  shows "\<exists>r. monte_carlo_simulation_portfolio ppf stocks weights trials days ii g
                = Inr (r, asset_rng g (nat days) (nat trials) (length stocks))
           \<and> portfolio_values r
               = replicate (nat days)
                   (foldl vadd (replicate (nat trials) (Fin 0))
                      (stock_vectors ppf weights (nat trials) (nat days) ii 0 stocks g))
           \<and> final_portfolio_values r
               = foldl vadd (replicate (nat trials) (Fin 0))
                   (stock_vectors ppf weights (nat trials) (nat days) ii 0 stocks g)"
proof -
  let ?row = "foldl vadd (replicate (nat trials) (Fin 0))
                (stock_vectors ppf weights (nat trials) (nat days) ii 0 stocks g)"
  have l: "0 + length stocks \<le> length weights" using assms(4) by simp
  from portfolio_loop_ok[OF assms(1,2,3) l, of ppf ii "np_zeros (nat days) (nat trials)" "[]" g]
  obtain rets' where loop: "portfolio_loop ppf weights trials days ii 0 stocks
             (np_zeros (nat days) (nat trials), [], g)
           = Inr (map (\<lambda>row. foldl vadd row
                         (stock_vectors ppf weights (nat trials) (nat days) ii 0 stocks g))
                    (np_zeros (nat days) (nat trials)),
                  rets',
                  asset_rng g (nat days) (nat trials) (length stocks))"
    by blast
  have pv: "map (\<lambda>row. foldl vadd row
                         (stock_vectors ppf weights (nat trials) (nat days) ii 0 stocks g))
                    (np_zeros (nat days) (nat trials))
              = replicate (nat days) ?row"
    by (simp add: np_zeros_def)
  have ne: "replicate (nat days) ?row \<noteq> []" using assms(1) by simp
  have la: "last (replicate (nat days) ?row) = ?row" using assms(1) by simp
  have "monte_carlo_simulation_portfolio ppf stocks weights trials days ii g
          = Inr (\<lparr>portfolio_values = replicate (nat days) ?row,
                   final_portfolio_values = ?row, portfolio_returns = rets'\<rparr>,
                 asset_rng g (nat days) (nat trials) (length stocks))"
    unfolding monte_carlo_simulation_portfolio_def loop pv
    using assms(1,2) ne la by simp
  then show ?thesis by auto
qed












section \<open>Claims about the portfolio\<close>

text \<open>
  C10: when the portfolio simulation returns, every row of the \<open>days \<times> trials\<close> grid
  \<open>portfolio_values\<close> is the same: for every day \<open>t\<close> and trial \<open>k\<close> the entry is
  the sum over the stocks of the stock's terminal price in trial \<open>k\<close> times its
  allocation over its current price, and the last row is the one handed on as
  \<open>final_portfolio_values\<close>. The simulation returns when there is at least one day, every
  stock has a price and a current price that is not zero, and there is a weight for every
  stock.
\<close>

theorem portfolio_rows_identical:
  assumes "0 < days" and "0 \<le> trials"
    and "\<forall>opens\<in>set stock_files. opens \<noteq> [] \<and> last opens \<noteq> Fin 0"
    and "length stock_files \<le> length weights"
  shows "\<exists>r g'. monte_carlo_simulation_portfolio ppf stock_files weights trials days
                   initial_investment g = Inr (r, g')
           \<and> length (portfolio_values r) = nat days
           \<and> (\<forall>t k. t < nat days \<and> k < nat trials \<longrightarrow>
                 portfolio_values r ! t ! k
                   = foldl fadd (Fin 0)
                       (map (\<lambda>i. fmul (final_prices_of ppf (nat trials) (nat days)
                                          (stock_files ! i)
                                          (asset_rng g (nat days) (nat trials) i) ! k)
                                    (fdiv (fmul initial_investment (weights ! i))
                                       (last (stock_files ! i))))
                          [0..<length stock_files]))
           \<and> (\<forall>t t'. t < nat days \<and> t' < nat days \<longrightarrow>
                 portfolio_values r ! t = portfolio_values r ! t')
           \<and> final_portfolio_values r = portfolio_values r ! (nat days - 1)"
proof -
  let ?row = "foldl vadd (replicate (nat trials) (Fin 0))
                (stock_vectors ppf weights (nat trials) (nat days) initial_investment 0
                   stock_files g)"
  from portfolio_ok[OF assms, of ppf initial_investment g]
  obtain r where r: "monte_carlo_simulation_portfolio ppf stock_files weights trials days
                   initial_investment g
                = Inr (r, asset_rng g (nat days) (nat trials) (length stock_files))"
    and pv: "portfolio_values r = replicate (nat days) ?row"
    and fin: "final_portfolio_values r = ?row"
    by blast
  have d: "0 < nat days" using assms(1) by simp
  have a: "length (portfolio_values r) = nat days" by (simp add: pv)
  have b: "\<forall>t k. t < nat days \<and> k < nat trials \<longrightarrow>
                 portfolio_values r ! t ! k
                   = foldl fadd (Fin 0)
                       (map (\<lambda>i. fmul (final_prices_of ppf (nat trials) (nat days)
                                          (stock_files ! i)
                                          (asset_rng g (nat days) (nat trials) i) ! k)
                                    (fdiv (fmul initial_investment (weights ! i))
                                       (last (stock_files ! i))))
                          [0..<length stock_files])"
    using portfolio_entry[OF d, of _ "nat trials" ppf weights initial_investment stock_files g]
    by (simp add: pv)
  have c: "\<forall>t t'. t < nat days \<and> t' < nat days \<longrightarrow>
                 portfolio_values r ! t = portfolio_values r ! t'"
    by (simp add: pv)
  have e: "final_portfolio_values r = portfolio_values r ! (nat days - 1)"
    using d by (simp add: pv fin)
  from r a b c e show ?thesis by blast
qed

theorem portfolio_rows_identical_witness:
  "(0::int) < 2 \<and> (0::int) \<le> 1
   \<and> [Fin 1, Fin 2] \<noteq> [] \<and> last [Fin 1, Fin 2] \<noteq> Fin 0
   \<and> length [[Fin 1, Fin 2]] \<le> length [Fin 1]
   \<and> (\<exists>r g'. monte_carlo_simulation_portfolio ppf_example [[Fin 1, Fin 2]] [Fin 1] 1 2
                   (Fin 1000) rng_half = Inr (r, g')
           \<and> length (portfolio_values r) = nat 2
           \<and> (\<forall>t t'. t < nat 2 \<and> t' < nat 2 \<longrightarrow>
                 portfolio_values r ! t = portfolio_values r ! t')
           \<and> final_portfolio_values r = portfolio_values r ! (nat 2 - 1))"
proof -
  have h: "(0::int) < 2" "(0::int) \<le> 1"
    "\<forall>opens\<in>set [[Fin 1, Fin 2]]. opens \<noteq> [] \<and> last opens \<noteq> Fin 0"
    "length [[Fin 1, Fin 2]] \<le> length [Fin 1]"
    by simp_all
  have e: "[Fin 1, Fin 2] \<noteq> []" "last [Fin 1, Fin 2] \<noteq> Fin 0" by simp_all
  from portfolio_rows_identical[OF h, of ppf_example "Fin 1000" rng_half] h(1,2,4) e
  show ?thesis by blast
qed




section \<open>Helper lemmas: errors of the portfolio loop\<close>




section \<open>Claims about missing checks\<close>







end
